theory Spec2Isabelle
  imports Main "HOL-Library.Sublist"
begin

section \<open>The gas report script of the records Merkle tree\<close>

text \<open>
  The script \<^verbatim>\<open>scripts/gas-report.py\<close> is a straight line of calls into the
  brownie test harness: it deploys \<^verbatim>\<open>TestRecordsMerkleTree\<close>, seeds its root and
  leaf count, submits one update, and prints the receipt of that update. Nothing of
  the harness or of the contract is part of the script, so the harness is a parameter
  of the model: a record of the operations the script calls, each one a function of
  the state of the harness and of the chain behind it (the world) that either raises
  or returns a result and the next world.
\<close>

subsection \<open>The harness\<close>

text \<open>The status of a transaction receipt, as brownie numbers it (-2, -1, 0, 1).\<close>

datatype Status = Dropped | Pending | Reverted | Confirmed

text \<open>
  The type variables are the opaque values of the harness: \<open>'w\<close> the world, \<open>'a\<close> an
  account, \<open>'h\<close> the handle of a deployed contract, \<open>'t\<close> a transaction receipt and
  \<open>'x\<close> an exception. The field \<open>accounts\<close> is the lookup \<^verbatim>\<open>accounts[i]\<close>;
  the script never adds or removes an account and the calls it makes leave the
  container alone, so the lookup does not depend on the world. The field \<open>status\<close> is
  the attribute \<^verbatim>\<open>tx.status\<close> of a receipt. The methods \<open>info\<close> and \<open>call_trace\<close>
  print: the text they return is what they write to standard output.
\<close>

record ('w, 'a, 'h, 't, 'x) brownie =
  accounts :: "int \<Rightarrow> 'x + 'a"
  deploy :: "int \<Rightarrow> 'a \<Rightarrow> 'w \<Rightarrow> 'x + 'h \<times> 'w"
  testSetRootAndNumLeaves :: "'h \<Rightarrow> int \<Rightarrow> int \<Rightarrow> 'a \<Rightarrow> 'w \<Rightarrow> 'x + 't \<times> 'w"
  testUpdateRecordsMerkleTree ::
    "'h \<Rightarrow> int list \<Rightarrow> int list \<Rightarrow> 'a \<Rightarrow> 'w \<Rightarrow> 'x + 't \<times> 'w"
  info :: "'t \<Rightarrow> 'w \<Rightarrow> 'x + string \<times> 'w"
  status :: "'t \<Rightarrow> Status"
  call_trace :: "'t \<Rightarrow> 'w \<Rightarrow> 'x + string \<times> 'w"

subsection \<open>What a run does\<close>

text \<open>
  A run is observed through the list of its events, in the order they happen: a call
  into the harness with its arguments (the account is the \<^verbatim>\<open>{"from": ...}\<close> of the
  call), the return of a call with its result, a text written to standard output, and
  the read of an attribute. A call that raises has no return event.
\<close>

datatype ('a, 'h, 't) event =
    Call_deploy int 'a
  | Return_deploy 'h
  | Call_testSetRootAndNumLeaves 'h int int 'a
  | Return_testSetRootAndNumLeaves 't
  | Call_testUpdateRecordsMerkleTree 'h "int list" "int list" 'a
  | Return_testUpdateRecordsMerkleTree 't
  | Call_info 't
  | Stdout string
  | Read_status 't
  | Call_call_trace 't

text \<open>
  A statement takes the world and the events so far, and gives the events after it
  together with either the exception it raised or its value and the next world.
\<close>

type_synonym ('r, 'w, 'a, 'h, 't, 'x) stmt =
  "'w \<Rightarrow> ('a, 'h, 't) event list \<Rightarrow> ('x + 'r \<times> 'w) \<times> ('a, 'h, 't) event list"

text \<open>
  One statement after another: the script has no \<^verbatim>\<open>try\<close>, so an exception of the
  first ends the run and the second is not started.
\<close>

definition seq ::
  "('r, 'w, 'a, 'h, 't, 'x) stmt \<Rightarrow> ('r \<Rightarrow> ('s, 'w, 'a, 'h, 't, 'x) stmt)
     \<Rightarrow> ('s, 'w, 'a, 'h, 't, 'x) stmt" where
  "seq m k w lg =
     (case m w lg of
        (Inl e, lg') \<Rightarrow> (Inl e, lg')
      | (Inr (r, w'), lg') \<Rightarrow> k r w' lg')"

text \<open>The expression \<^verbatim>\<open>accounts[i]\<close>.\<close>

definition accounts_getitem ::
  "('w, 'a, 'h, 't, 'x) brownie \<Rightarrow> int \<Rightarrow> ('a, 'w, 'a, 'h, 't, 'x) stmt" where
  "accounts_getitem env i w lg =
     (case accounts env i of
        Inl e \<Rightarrow> (Inl e, lg)
      | Inr a \<Rightarrow> (Inr (a, w), lg))"

text \<open>\<^verbatim>\<open>TestRecordsMerkleTree.deploy(depth, {"from": a})\<close>\<close>

definition call_deploy ::
  "('w, 'a, 'h, 't, 'x) brownie \<Rightarrow> int \<Rightarrow> 'a \<Rightarrow> ('h, 'w, 'a, 'h, 't, 'x) stmt" where
  "call_deploy env depth a w lg =
     (case deploy env depth a w of
        Inl e \<Rightarrow> (Inl e, lg @ [Call_deploy depth a])
      | Inr (h, w') \<Rightarrow> (Inr (h, w'), lg @ [Call_deploy depth a, Return_deploy h]))"

text \<open>\<^verbatim>\<open>h.testSetRootAndNumLeaves(root, num_leaves, {"from": a})\<close>\<close>

definition call_testSetRootAndNumLeaves ::
  "('w, 'a, 'h, 't, 'x) brownie \<Rightarrow> 'h \<Rightarrow> int \<Rightarrow> int \<Rightarrow> 'a
     \<Rightarrow> ('t, 'w, 'a, 'h, 't, 'x) stmt" where
  "call_testSetRootAndNumLeaves env h root num_leaves a w lg =
     (case testSetRootAndNumLeaves env h root num_leaves a w of
        Inl e \<Rightarrow> (Inl e, lg @ [Call_testSetRootAndNumLeaves h root num_leaves a])
      | Inr (t, w') \<Rightarrow>
          (Inr (t, w'),
           lg @ [Call_testSetRootAndNumLeaves h root num_leaves a,
                 Return_testSetRootAndNumLeaves t]))"

text \<open>\<^verbatim>\<open>h.testUpdateRecordsMerkleTree(frontier, elements, {"from": a})\<close>\<close>

definition call_testUpdateRecordsMerkleTree ::
  "('w, 'a, 'h, 't, 'x) brownie \<Rightarrow> 'h \<Rightarrow> int list \<Rightarrow> int list \<Rightarrow> 'a
     \<Rightarrow> ('t, 'w, 'a, 'h, 't, 'x) stmt" where
  "call_testUpdateRecordsMerkleTree env h frontier elements a w lg =
     (case testUpdateRecordsMerkleTree env h frontier elements a w of
        Inl e \<Rightarrow> (Inl e, lg @ [Call_testUpdateRecordsMerkleTree h frontier elements a])
      | Inr (t, w') \<Rightarrow>
          (Inr (t, w'),
           lg @ [Call_testUpdateRecordsMerkleTree h frontier elements a,
                 Return_testUpdateRecordsMerkleTree t]))"

text \<open>\<^verbatim>\<open>t.info()\<close>, which prints its summary and returns nothing.\<close>

definition call_info ::
  "('w, 'a, 'h, 't, 'x) brownie \<Rightarrow> 't \<Rightarrow> (unit, 'w, 'a, 'h, 't, 'x) stmt" where
  "call_info env t w lg =
     (case info env t w of
        Inl e \<Rightarrow> (Inl e, lg @ [Call_info t])
      | Inr (text, w') \<Rightarrow> (Inr ((), w'), lg @ [Call_info t, Stdout text]))"

text \<open>The expression \<^verbatim>\<open>t.status\<close>: its value is the attribute.\<close>

definition read_status ::
  "('w, 'a, 'h, 't, 'x) brownie \<Rightarrow> 't \<Rightarrow> (Status, 'w, 'a, 'h, 't, 'x) stmt" where
  "read_status env t w lg = (Inr (status env t, w), lg @ [Read_status t])"

text \<open>\<^verbatim>\<open>t.call_trace()\<close>, which prints the trace and returns nothing.\<close>

definition call_call_trace ::
  "('w, 'a, 'h, 't, 'x) brownie \<Rightarrow> 't \<Rightarrow> (unit, 'w, 'a, 'h, 't, 'x) stmt" where
  "call_call_trace env t w lg =
     (case call_trace env t w of
        Inl e \<Rightarrow> (Inl e, lg @ [Call_call_trace t])
      | Inr (text, w') \<Rightarrow> (Inr ((), w'), lg @ [Call_call_trace t, Stdout text]))"

subsection \<open>The script\<close>

text \<open>The local variables of \<^verbatim>\<open>main\<close>; all of them are literals.\<close>

definition tree_depth :: int where
  "tree_depth = 20"

definition initial_root_value :: int where
  "initial_root_value =
     16338819200219295738128869281163133642735762710891814031809540606861827401155"

definition initial_num_of_leaves :: int where
  "initial_num_of_leaves = 1"

definition leaf_value :: int where
  "leaf_value =
     17101599813294219906421080963940202236242422543188383858545041456174912634953"

definition flatten_frontier :: "int list" where
  "flatten_frontier = [leaf_value] @ replicate 60 0"

definition elems :: "int list" where
  "elems = [1, 2, 3, 4, 5]"

text \<open>
  \<^verbatim>\<open>main\<close>, statement by statement. The account of each call is looked up where the
  source writes \<^verbatim>\<open>accounts[0]\<close>, once per call, while the arguments are evaluated.
  The receipt of the seeding call is not bound to a name, and the value of
  \<^verbatim>\<open>tx.status\<close> is dropped.
\<close>

definition main_body :: "('w, 'a, 'h, 't, 'x) brownie \<Rightarrow> (unit, 'w, 'a, 'h, 't, 'x) stmt" where
  "main_body env =
     seq (accounts_getitem env 0) (\<lambda>from_deploy.
     seq (call_deploy env tree_depth from_deploy) (\<lambda>mock_contract.
     seq (accounts_getitem env 0) (\<lambda>from_seed.
     seq (call_testSetRootAndNumLeaves env mock_contract
            initial_root_value initial_num_of_leaves from_seed) (\<lambda>_.
     seq (accounts_getitem env 0) (\<lambda>from_update.
     seq (call_testUpdateRecordsMerkleTree env mock_contract
            flatten_frontier elems from_update) (\<lambda>tx.
     seq (call_info env tx) (\<lambda>_.
     seq (read_status env tx) (\<lambda>_.
     call_call_trace env tx))))))))"

text \<open>
  A run of the script from a world: the exception that ended it, if one did, and the
  events of the run.
\<close>

definition main ::
  "('w, 'a, 'h, 't, 'x) brownie \<Rightarrow> 'w \<Rightarrow> 'x option \<times> ('a, 'h, 't) event list" where
  "main env w =
     (case main_body env w [] of
        (Inl e, lg) \<Rightarrow> (Some e, lg)
      | (Inr _, lg) \<Rightarrow> (None, lg))"

definition raised :: "'x option \<times> ('a, 'h, 't) event list \<Rightarrow> 'x option" where
  "raised run = fst run"

definition events :: "'x option \<times> ('a, 'h, 't) event list \<Rightarrow> ('a, 'h, 't) event list" where
  "events run = snd run"

text \<open>What a list of events wrote to standard output.\<close>

fun stdout :: "('a, 'h, 't) event list \<Rightarrow> string list" where
  "stdout [] = []"
| "stdout (Stdout text # evs) = text # stdout evs"
| "stdout (_ # evs) = stdout evs"

subsection \<open>Observations on a run\<close>

text \<open>
  The place of an event in the script, without its arguments, and the places in the
  order in which the source writes them. Both methods that print have the same
  label for what they print.
\<close>

datatype label =
    Deploy_called | Deploy_returned
  | Seed_called | Seed_returned
  | Update_called | Update_returned
  | Info_called | Printed | Status_read | Trace_called

fun label_of :: "('a, 'h, 't) event \<Rightarrow> label" where
  "label_of (Call_deploy _ _) = Deploy_called"
| "label_of (Return_deploy _) = Deploy_returned"
| "label_of (Call_testSetRootAndNumLeaves _ _ _ _) = Seed_called"
| "label_of (Return_testSetRootAndNumLeaves _) = Seed_returned"
| "label_of (Call_testUpdateRecordsMerkleTree _ _ _ _) = Update_called"
| "label_of (Return_testUpdateRecordsMerkleTree _) = Update_returned"
| "label_of (Call_info _) = Info_called"
| "label_of (Stdout _) = Printed"
| "label_of (Read_status _) = Status_read"
| "label_of (Call_call_trace _) = Trace_called"

definition script_order :: "label list" where
  "script_order =
     [Deploy_called, Deploy_returned, Seed_called, Seed_returned,
      Update_called, Update_returned, Info_called, Printed, Status_read,
      Trace_called, Printed]"

text \<open>The arguments of the calls of a run and the results returned to it.\<close>

fun deploy_calls :: "('a, 'h, 't) event list \<Rightarrow> int list" where
  "deploy_calls [] = []"
| "deploy_calls (Call_deploy depth _ # evs) = depth # deploy_calls evs"
| "deploy_calls (_ # evs) = deploy_calls evs"

fun deploy_returns :: "('a, 'h, 't) event list \<Rightarrow> 'h list" where
  "deploy_returns [] = []"
| "deploy_returns (Return_deploy h # evs) = h # deploy_returns evs"
| "deploy_returns (_ # evs) = deploy_returns evs"

fun seed_calls :: "('a, 'h, 't) event list \<Rightarrow> ('h \<times> int \<times> int) list" where
  "seed_calls [] = []"
| "seed_calls (Call_testSetRootAndNumLeaves h root n _ # evs) = (h, root, n) # seed_calls evs"
| "seed_calls (_ # evs) = seed_calls evs"

fun seed_returns :: "('a, 'h, 't) event list \<Rightarrow> 't list" where
  "seed_returns [] = []"
| "seed_returns (Return_testSetRootAndNumLeaves t # evs) = t # seed_returns evs"
| "seed_returns (_ # evs) = seed_returns evs"

fun update_calls :: "('a, 'h, 't) event list \<Rightarrow> ('h \<times> int list \<times> int list) list" where
  "update_calls [] = []"
| "update_calls (Call_testUpdateRecordsMerkleTree h f e _ # evs) = (h, f, e) # update_calls evs"
| "update_calls (_ # evs) = update_calls evs"

fun update_returns :: "('a, 'h, 't) event list \<Rightarrow> 't list" where
  "update_returns [] = []"
| "update_returns (Return_testUpdateRecordsMerkleTree t # evs) = t # update_returns evs"
| "update_returns (_ # evs) = update_returns evs"

text \<open>The accounts that paid for the transactions of a run.\<close>

fun senders :: "('a, 'h, 't) event list \<Rightarrow> 'a list" where
  "senders [] = []"
| "senders (Call_deploy _ a # evs) = a # senders evs"
| "senders (Call_testSetRootAndNumLeaves _ _ _ a # evs) = a # senders evs"
| "senders (Call_testUpdateRecordsMerkleTree _ _ _ a # evs) = a # senders evs"
| "senders (_ # evs) = senders evs"

text \<open>The receipts a run asked for a summary, a status or a trace.\<close>

fun inspected :: "('a, 'h, 't) event list \<Rightarrow> 't list" where
  "inspected [] = []"
| "inspected (Call_info t # evs) = t # inspected evs"
| "inspected (Read_status t # evs) = t # inspected evs"
| "inspected (Call_call_trace t # evs) = t # inspected evs"
| "inspected (_ # evs) = inspected evs"

text \<open>The events of a run other than the return of the seeding call.\<close>

definition without_seed_return :: "('a, 'h, 't) event list \<Rightarrow> ('a, 'h, 't) event list" where
  "without_seed_return evs = filter (\<lambda>ev. label_of ev \<noteq> Seed_returned) evs"

text \<open>
  The same harness, with the receipt that the seeding call returns replaced by
  \<open>f\<close> of it; the seeding call raises and changes the world as before.
\<close>

definition seed_receipt_replaced ::
  "('t \<Rightarrow> 't) \<Rightarrow> ('w, 'a, 'h, 't, 'x) brownie \<Rightarrow> ('w, 'a, 'h, 't, 'x) brownie" where
  "seed_receipt_replaced f env =
     env\<lparr>testSetRootAndNumLeaves := \<lambda>h root n a w.
       (case testSetRootAndNumLeaves env h root n a w of
          Inl e \<Rightarrow> Inl e
        | Inr (t, w') \<Rightarrow> Inr (f t, w'))\<rparr>"

subsection \<open>A harness to run the script on\<close>

text \<open>
  A small deterministic harness: the world counts the transactions mined so far, a
  receipt is the number of its transaction, the contract handle is the address 4096,
  and there are ten accounts, numbered from 0. The operations named in \<open>broken\<close>
  raise, and every receipt has the status \<open>st\<close>.
\<close>

datatype operation = Accounts | Deploy | Seed | Update | Info | Trace

definition harness :: "operation list \<Rightarrow> Status \<Rightarrow> (nat, nat, nat, nat, string) brownie" where
  "harness broken st =
     \<lparr>accounts = (\<lambda>i. if Accounts \<in> set broken \<or> i < 0 \<or> 10 \<le> i
                        then Inl ''IndexError'' else Inr (nat i)),
      deploy = (\<lambda>depth a w. if Deploy \<in> set broken
                        then Inl ''deployment failed'' else Inr (4096, w + 1)),
      testSetRootAndNumLeaves = (\<lambda>h root n a w. if Seed \<in> set broken
                        then Inl ''seeding reverted'' else Inr (w, w + 1)),
      testUpdateRecordsMerkleTree = (\<lambda>h frontier elements a w. if Update \<in> set broken
                        then Inl ''update reverted'' else Inr (w, w + 1)),
      info = (\<lambda>t w. if Info \<in> set broken
                        then Inl ''info failed'' else Inr (''Gas Used'', w)),
      status = (\<lambda>t. st),
      call_trace = (\<lambda>t w. if Trace \<in> set broken
                        then Inl ''RPCRequestError'' else Inr (''Call trace'', w))\<rparr>"

subsection \<open>Transactions that revert\<close>



section \<open>Unfolding a run\<close>

lemmas stmt_defs =
  seq_def accounts_getitem_def call_deploy_def call_testSetRootAndNumLeaves_def
  call_testUpdateRecordsMerkleTree_def call_info_def read_status_def call_call_trace_def

lemmas run_defs = main_def main_body_def stmt_defs events_def raised_def

text \<open>The complete run on the small harness, whatever status its receipts have.\<close>

lemma harness_run:
  "main (harness [] st) 0 =
     (None,
      [Call_deploy 20 0, Return_deploy 4096,
       Call_testSetRootAndNumLeaves 4096 initial_root_value 1 0,
       Return_testSetRootAndNumLeaves 1,
       Call_testUpdateRecordsMerkleTree 4096 flatten_frontier elems 0,
       Return_testUpdateRecordsMerkleTree 2,
       Call_info 2, Stdout ''Gas Used'', Read_status 2,
       Call_call_trace 2, Stdout ''Call trace''])"
  by (simp add: run_defs harness_def tree_depth_def initial_num_of_leaves_def)

lemma flatten_frontier_length: "length flatten_frontier = 61"
  by (simp add: flatten_frontier_def)

section \<open>The order of the steps\<close>

text \<open>
  C1. In every run the steps happen in the order of the script: deploy, then the
  seeding call \<^verbatim>\<open>testSetRootAndNumLeaves\<close>, then the update call
  \<^verbatim>\<open>testUpdateRecordsMerkleTree\<close>. The events of a run are an initial part of
  the script's sequence, and when the update call is issued, what happened before it
  is exactly: deploy called, deploy returned, seeding called, seeding returned. The
  script is one thread of blocking calls, which the model renders as one list of
  events, so no two calls overlap.
\<close>

theorem strict_order:
  "prefix (map label_of (events (main env w))) script_order
   \<and> (Update_called \<in> set (map label_of (events (main env w))) \<longrightarrow>
        map label_of (takeWhile (\<lambda>ev. label_of ev \<noteq> Update_called) (events (main env w)))
          = [Deploy_called, Deploy_returned, Seed_called, Seed_returned])"
  by (simp add: run_defs script_order_def split: sum.splits prod.splits)

theorem strict_order_witness:
  "Update_called \<in> set (map label_of (events (main (harness [] Confirmed) 0)))
   \<and> map label_of (takeWhile (\<lambda>ev. label_of ev \<noteq> Update_called)
        (events (main (harness [] Confirmed) 0)))
      = [Deploy_called, Deploy_returned, Seed_called, Seed_returned]
   \<and> prefix (map label_of (events (main (harness [Seed] Confirmed) 0))) script_order
   \<and> Update_called \<notin> set (map label_of (events (main (harness [Seed] Confirmed) 0)))"
  using strict_order [of "harness [] Confirmed" 0] strict_order [of "harness [Seed] Confirmed" 0]
  by (simp add: harness_run events_def) (simp add: run_defs harness_def)

section \<open>The seeding call and its status\<close>



section \<open>The arguments of the calls\<close>

text \<open>
  C3. The script calls the update entrypoint with the frontier
  17101599813294219906421080963940202236242422543188383858545041456174912634953
  followed by 60 zeros, a list of length 61, and with the elements 1, 2, 3, 4, 5.
  As soon as the account lookup, the deployment and the seeding call have returned,
  the run has exactly this one update call, on the deployed contract; a run that
  ended before has none.
\<close>

theorem update_arguments:
  "update_calls (events (main env w)) =
     (case accounts env 0 of
        Inl _ \<Rightarrow> []
      | Inr a \<Rightarrow>
          (case deploy env 20 a w of
             Inl _ \<Rightarrow> []
           | Inr (h, w1) \<Rightarrow>
               (case testSetRootAndNumLeaves env h
                       16338819200219295738128869281163133642735762710891814031809540606861827401155
                       1 a w1 of
                  Inl _ \<Rightarrow> []
                | Inr _ \<Rightarrow>
                    [(h,
                      17101599813294219906421080963940202236242422543188383858545041456174912634953
                        # replicate 60 0,
                      [1, 2, 3, 4, 5])])))
   \<and> (\<forall>(h, frontier, elements) \<in> set (update_calls (events (main env w))).
         length frontier = 61
       \<and> hd frontier
           = 17101599813294219906421080963940202236242422543188383858545041456174912634953
       \<and> tl frontier = replicate 60 0
       \<and> elements = [1, 2, 3, 4, 5])"
  by (simp add: run_defs flatten_frontier_def leaf_value_def elems_def tree_depth_def
      initial_root_value_def initial_num_of_leaves_def split: sum.splits prod.splits)

theorem update_arguments_witness:
  "update_calls (events (main (harness [] Confirmed) 0)) =
     [(4096,
       17101599813294219906421080963940202236242422543188383858545041456174912634953
         # replicate 60 0,
       [1, 2, 3, 4, 5])]"
  using update_arguments [of "harness [] Confirmed" 0]
  by (simp add: harness_run events_def flatten_frontier_def leaf_value_def elems_def)

text \<open>
  C4. The contract is deployed with depth 20, as soon as the account is at hand, and
  the seeding call has the root
  16338819200219295738128869281163133642735762710891814031809540606861827401155
  and the leaf count 1. Nothing is checked in between: every contract handle that the
  deployment returns gets the seeding call.
\<close>

theorem deploy_and_seed_arguments:
  "deploy_calls (events (main env w)) = (case accounts env 0 of Inl _ \<Rightarrow> [] | Inr _ \<Rightarrow> [20])
   \<and> seed_calls (events (main env w)) =
       map (\<lambda>h. (h,
              16338819200219295738128869281163133642735762710891814031809540606861827401155,
              1))
         (deploy_returns (events (main env w)))"
  by (simp add: run_defs tree_depth_def initial_root_value_def initial_num_of_leaves_def
      split: sum.splits prod.splits)

section \<open>The status of the update is read and not used\<close>

text \<open>
  C6. The script reads the status of the update transaction and does not branch on it:
  two runs in the same harness and world that differ only in what the status attribute
  of a receipt yields perform the same events and end the same way.
\<close>

theorem status_not_branched_on:
  "main (env\<lparr>status := s1\<rparr>) w = main (env\<lparr>status := s2\<rparr>) w"
  by (simp add: main_def main_body_def stmt_defs split: sum.splits prod.splits)

section \<open>Output and failures\<close>

text \<open>
  C7. The summary of the update transaction is on standard output before the trace is
  asked for: when a run calls \<^verbatim>\<open>call_trace\<close> on a receipt, the events before
  that call end with the return of the update call with that receipt, the call of
  \<^verbatim>\<open>info\<close> on it, the summary printed and the read of the status, and nothing
  else was printed before. The summary stays the first text of the output of the run,
  and it is the whole output when the run ends with an exception.
\<close>

theorem summary_printed_before_trace:
  assumes "Call_call_trace t \<in> set (events (main env w))"
  shows "\<exists>before summary w3 w4.
           takeWhile (\<lambda>ev. ev \<noteq> Call_call_trace t) (events (main env w))
             = before @ [Return_testUpdateRecordsMerkleTree t, Call_info t,
                         Stdout summary, Read_status t]
         \<and> stdout before = []
         \<and> info env t w3 = Inr (summary, w4)
         \<and> prefix [summary] (stdout (events (main env w)))
         \<and> (raised (main env w) \<noteq> None \<longrightarrow> stdout (events (main env w)) = [summary])"
  using assms by (auto simp add: run_defs split: sum.splits prod.splits)

theorem summary_printed_before_trace_witness:
  "Call_call_trace 2 \<in> set (events (main (harness [Trace] Confirmed) 0))
   \<and> raised (main (harness [Trace] Confirmed) 0) = Some ''RPCRequestError''
   \<and> stdout (events (main (harness [Trace] Confirmed) 0)) = [''Gas Used'']"
  using summary_printed_before_trace [of 2 "harness [Trace] Confirmed" 0]
  by (simp add: run_defs harness_def)

text \<open>
  C8. An exception of the harness ends the run as it is: whichever of the lookups and
  calls raises first, the run ends with that exception, and its last event is the call
  that raised (no event at all when the lookup of the account raised). No call is
  repeated and no later step is started.
\<close>

theorem exceptions_propagate:
  "(accounts env 0 = Inl x \<longrightarrow> main env w = (Some x, []))
   \<and> (accounts env 0 = Inr a \<longrightarrow>
        (deploy env tree_depth a w = Inl x \<longrightarrow>
           main env w = (Some x, [Call_deploy tree_depth a]))
      \<and> (deploy env tree_depth a w = Inr (h, w1) \<longrightarrow>
           (testSetRootAndNumLeaves env h initial_root_value initial_num_of_leaves a w1 = Inl x \<longrightarrow>
              main env w =
                (Some x,
                 [Call_deploy tree_depth a, Return_deploy h,
                  Call_testSetRootAndNumLeaves h initial_root_value initial_num_of_leaves a]))
         \<and> (testSetRootAndNumLeaves env h initial_root_value initial_num_of_leaves a w1
               = Inr (t0, w2) \<longrightarrow>
              (testUpdateRecordsMerkleTree env h flatten_frontier elems a w2 = Inl x \<longrightarrow>
                 main env w =
                   (Some x,
                    [Call_deploy tree_depth a, Return_deploy h,
                     Call_testSetRootAndNumLeaves h initial_root_value initial_num_of_leaves a,
                     Return_testSetRootAndNumLeaves t0,
                     Call_testUpdateRecordsMerkleTree h flatten_frontier elems a]))
            \<and> (testUpdateRecordsMerkleTree env h flatten_frontier elems a w2 = Inr (tx, w3) \<longrightarrow>
                 (info env tx w3 = Inl x \<longrightarrow>
                    main env w =
                      (Some x,
                       [Call_deploy tree_depth a, Return_deploy h,
                        Call_testSetRootAndNumLeaves h initial_root_value initial_num_of_leaves a,
                        Return_testSetRootAndNumLeaves t0,
                        Call_testUpdateRecordsMerkleTree h flatten_frontier elems a,
                        Return_testUpdateRecordsMerkleTree tx,
                        Call_info tx]))
               \<and> (info env tx w3 = Inr (summary, w4) \<and> call_trace env tx w4 = Inl x \<longrightarrow>
                    main env w =
                      (Some x,
                       [Call_deploy tree_depth a, Return_deploy h,
                        Call_testSetRootAndNumLeaves h initial_root_value initial_num_of_leaves a,
                        Return_testSetRootAndNumLeaves t0,
                        Call_testUpdateRecordsMerkleTree h flatten_frontier elems a,
                        Return_testUpdateRecordsMerkleTree tx,
                        Call_info tx, Stdout summary, Read_status tx,
                        Call_call_trace tx]))))))"
  by (simp add: run_defs)

theorem exceptions_propagate_witness:
  "main (harness [Accounts] Confirmed) 0 = (Some ''IndexError'', [])
   \<and> main (harness [Deploy] Confirmed) 0 = (Some ''deployment failed'', [Call_deploy 20 0])
   \<and> main (harness [Seed] Confirmed) 0 =
       (Some ''seeding reverted'',
        [Call_deploy 20 0, Return_deploy 4096,
         Call_testSetRootAndNumLeaves 4096 initial_root_value 1 0])
   \<and> main (harness [Update] Confirmed) 0 =
       (Some ''update reverted'',
        [Call_deploy 20 0, Return_deploy 4096,
         Call_testSetRootAndNumLeaves 4096 initial_root_value 1 0,
         Return_testSetRootAndNumLeaves 1,
         Call_testUpdateRecordsMerkleTree 4096 flatten_frontier elems 0])
   \<and> main (harness [Info] Confirmed) 0 =
       (Some ''info failed'',
        [Call_deploy 20 0, Return_deploy 4096,
         Call_testSetRootAndNumLeaves 4096 initial_root_value 1 0,
         Return_testSetRootAndNumLeaves 1,
         Call_testUpdateRecordsMerkleTree 4096 flatten_frontier elems 0,
         Return_testUpdateRecordsMerkleTree 2,
         Call_info 2])
   \<and> main (harness [Trace] Confirmed) 0 =
       (Some ''RPCRequestError'',
        [Call_deploy 20 0, Return_deploy 4096,
         Call_testSetRootAndNumLeaves 4096 initial_root_value 1 0,
         Return_testSetRootAndNumLeaves 1,
         Call_testUpdateRecordsMerkleTree 4096 flatten_frontier elems 0,
         Return_testUpdateRecordsMerkleTree 2,
         Call_info 2, Stdout ''Gas Used'', Read_status 2,
         Call_call_trace 2])"
  using
    exceptions_propagate [where env = "harness [Accounts] Confirmed" and x = "''IndexError''"
       and w = 0]
    exceptions_propagate [where env = "harness [Deploy] Confirmed" and x = "''deployment failed''"
       and w = 0 and a = 0]
    exceptions_propagate [where env = "harness [Seed] Confirmed" and x = "''seeding reverted''"
       and w = 0 and a = 0 and h = 4096 and ?w1.0 = 1]
    exceptions_propagate [where env = "harness [Update] Confirmed" and x = "''update reverted''"
       and w = 0 and a = 0 and h = 4096 and ?w1.0 = 1 and ?t0.0 = 1 and ?w2.0 = 2]
    exceptions_propagate [where env = "harness [Info] Confirmed" and x = "''info failed''"
       and w = 0 and a = 0 and h = 4096 and ?w1.0 = 1 and ?t0.0 = 1 and ?w2.0 = 2
       and tx = 2 and ?w3.0 = 3]
    exceptions_propagate [where env = "harness [Trace] Confirmed" and x = "''RPCRequestError''"
       and w = 0 and a = 0 and h = 4096 and ?w1.0 = 1 and ?t0.0 = 1 and ?w2.0 = 2
       and tx = 2 and ?w3.0 = 3 and summary = "''Gas Used''" and ?w4.0 = 3]
  by (simp add: harness_def tree_depth_def initial_num_of_leaves_def)

section \<open>Who pays, and which receipt is reported\<close>

text \<open>
  C9. Every transaction of a run (the deployment, the seeding call and the update
  call) is sent from the account that \<^verbatim>\<open>accounts[0]\<close> denotes, and from no other.
\<close>

theorem funded_from_account_0:
  "\<forall>a \<in> set (senders (events (main env w))). accounts env 0 = Inr a"
  by (auto simp add: run_defs split: sum.splits prod.splits)

theorem funded_from_account_0_witness:
  "senders (events (main (harness [] Confirmed) 0)) = [0, 0, 0]
   \<and> accounts (harness [] Confirmed) 0 = Inr 0"
  using funded_from_account_0 [of "harness [] Confirmed" 0]
  by (simp add: harness_run events_def)

text \<open>
  C10. The receipt of the seeding call is dropped. Every receipt that a run asks for
  its summary, its status or its trace is one that the update call returned; and
  replacing the receipt that the seeding call returns by any other changes nothing
  in the run but the return event of the seeding call itself: the same exception or
  none, the same other events, the same output.
\<close>

theorem seeding_receipt_discarded:
  "(\<forall>t \<in> set (inspected (events (main env w))).
       t \<in> set (update_returns (events (main env w))))
   \<and> raised (main (seed_receipt_replaced f env) w) = raised (main env w)
   \<and> without_seed_return (events (main (seed_receipt_replaced f env) w))
       = without_seed_return (events (main env w))
   \<and> stdout (events (main (seed_receipt_replaced f env) w)) = stdout (events (main env w))"
  by (auto simp add: run_defs seed_receipt_replaced_def without_seed_return_def
      split: sum.splits prod.splits)

theorem seeding_receipt_discarded_witness:
  "inspected (events (main (harness [] Confirmed) 0)) = [2, 2, 2]
   \<and> update_returns (events (main (harness [] Confirmed) 0)) = [2]
   \<and> seed_returns (events (main (harness [] Confirmed) 0)) = [1]
   \<and> seed_returns (events (main (seed_receipt_replaced (\<lambda>t. t + 7) (harness [] Confirmed)) 0))
       = [8]
   \<and> stdout (events (main (seed_receipt_replaced (\<lambda>t. t + 7) (harness [] Confirmed)) 0))
       = [''Gas Used'', ''Call trace'']"
  using seeding_receipt_discarded [of "harness [] Confirmed" 0 "\<lambda>t. t + 7"]
  by (simp add: harness_run events_def)
    (simp add: run_defs seed_receipt_replaced_def harness_def)

end
